theory Spec2Isabelle
  imports Complex_Main "HOL-Library.List_Lexorder" "HOL-Library.Char_ord"
begin

section \<open>The browser client: token storage, auth callback, HTTP interceptor\<close>

subsection \<open>Browser state\<close>

text \<open>
  The client code acts on three pieces of browser state: \<^verbatim>\<open>localStorage\<close> (a
  string-keyed dictionary of strings), the router (each \<^verbatim>\<open>router.push\<close> is
  recorded, oldest first), and \<^verbatim>\<open>window.location.href\<close> (the last address
  assigned, if any). \<^verbatim>\<open>console.error\<close> lines are recorded as well.
\<close>

record browser =
  localStorage :: "string \<rightharpoonup> string"
  pushes :: "string list"
  href :: "string option"
  console :: "string list"

definition fresh_browser :: browser where
  "fresh_browser = \<lparr>localStorage = Map.empty, pushes = [], href = None, console = []\<rparr>"

definition setItem :: "string \<Rightarrow> string \<Rightarrow> browser \<Rightarrow> browser" where
  "setItem k v st = st\<lparr>localStorage := (localStorage st)(k \<mapsto> v)\<rparr>"

definition getItem :: "string \<Rightarrow> browser \<Rightarrow> string option" where
  "getItem k st = localStorage st k"

definition removeItem :: "string \<Rightarrow> browser \<Rightarrow> browser" where
  "removeItem k st = st\<lparr>localStorage := (localStorage st)(k := None)\<rparr>"

definition router_push :: "string \<Rightarrow> browser \<Rightarrow> browser" where
  "router_push url st = st\<lparr>pushes := pushes st @ [url]\<rparr>"

definition set_href :: "string \<Rightarrow> browser \<Rightarrow> browser" where
  "set_href url st = st\<lparr>href := Some url\<rparr>"

definition console_error :: "string \<Rightarrow> browser \<Rightarrow> browser" where
  "console_error msg st = st\<lparr>console := console st @ [msg]\<rparr>"

text \<open>
  JavaScript truthiness of a value of type \<^verbatim>\<open>string | null\<close>: \<^verbatim>\<open>null\<close> and the
  empty string are falsy, every other string is truthy.
\<close>

definition truthy :: "string option \<Rightarrow> bool" where
  "truthy v = (case v of None \<Rightarrow> False | Some s \<Rightarrow> s \<noteq> [])"

subsection \<open>tokenManager\<close>

text \<open>
  \<^verbatim>\<open>saveToken: (token) => { localStorage.setItem('resona_token', token); }\<close>
  \<^verbatim>\<open>getToken: () => localStorage.getItem('resona_token')\<close>
  \<^verbatim>\<open>removeToken: () => { localStorage.removeItem('resona_token'); }\<close>
  \<^verbatim>\<open>isAuthenticated: () => !!localStorage.getItem('resona_token')\<close>
\<close>

definition saveToken :: "string \<Rightarrow> browser \<Rightarrow> browser" where
  "saveToken token st = setItem ''resona_token'' token st"

definition getToken :: "browser \<Rightarrow> string option" where
  "getToken st = getItem ''resona_token'' st"

definition removeToken :: "browser \<Rightarrow> browser" where
  "removeToken st = removeItem ''resona_token'' st"

definition isAuthenticated :: "browser \<Rightarrow> bool" where
  "isAuthenticated st = truthy (getItem ''resona_token'' st)"

text \<open>\<^verbatim>\<open>auth.logout\<close>: remove the token, then assign \<^verbatim>\<open>window.location.href = '/'\<close>.\<close>

definition logout :: "browser \<Rightarrow> browser" where
  "logout st = set_href ''/'' (removeToken st)"

subsection \<open>The auth callback page\<close>

text \<open>
  The query parameters as the list of name/value pairs in the order of the URL;
  \<^verbatim>\<open>searchParams.get(name)\<close> is the value of the first pair with that name, or
  \<^verbatim>\<open>null\<close>.
\<close>

type_synonym searchParams = "(string \<times> string) list"

definition searchParams_get :: "searchParams \<Rightarrow> string \<Rightarrow> string option" where
  "searchParams_get ps name = map_of ps name"

text \<open>
  The effect of \<^verbatim>\<open>AuthContent\<close>:
  \<^verbatim>\<open>
  const token = searchParams.get('token');
  const error = searchParams.get('error');
  if (error) { console.error('Auth error:', error); router.push('/?error=' + error); return; }
  if (token) { tokenManager.saveToken(token); router.push('/dashboard'); }
  else { router.push('/'); }
  \<close>
\<close>

definition AuthContent :: "searchParams \<Rightarrow> browser \<Rightarrow> browser" where
  "AuthContent ps st =
     (let token = searchParams_get ps ''token'';
          error = searchParams_get ps ''error''
      in if truthy error then
           (case error of
              Some e \<Rightarrow> router_push (''/?error='' @ e) (console_error (''Auth error: '' @ e) st)
            | None \<Rightarrow> st)
         else if truthy token then
           (case token of
              Some t \<Rightarrow> router_push ''/dashboard'' (saveToken t st)
            | None \<Rightarrow> st)
         else router_push ''/'' st)"

subsection \<open>The HTTP client's response interceptor\<close>

text \<open>
  An axios error carries the response when the server answered (\<^verbatim>\<open>error.response\<close> is
  undefined for a network failure). A promise settles as \<open>Inr\<close> (fulfilled) or
  \<open>Inl\<close> (rejected).
\<close>

record http_response =
  status :: int
  body :: string

record axios_error =
  response :: "http_response option"
  message :: string

text \<open>
  \<^verbatim>\<open>
  (error) => {
      if (error.response?.status === 401) {
          localStorage.removeItem('resona_token');
          window.location.href = '/';
      }
      return Promise.reject(error);
  }
  \<close>
\<close>

definition response_onRejected :: "axios_error \<Rightarrow> browser \<Rightarrow> (axios_error + http_response) \<times> browser" where
  "response_onRejected error st =
     (if map_option status (response error) = Some 401
      then (Inl error, set_href ''/'' (removeItem ''resona_token'' st))
      else (Inl error, st))"

text \<open>The fulfilled side of the interceptor passes the response through.\<close>

definition response_onFulfilled :: "http_response \<Rightarrow> browser \<Rightarrow> (axios_error + http_response) \<times> browser" where
  "response_onFulfilled r st = (Inr r, st)"

subsection \<open>The dashboard's fetch handlers\<close>

text \<open>
  The API answers with JSON, typed \<^verbatim>\<open>any\<close> in the client. The handlers test such
  values for truthiness: \<^verbatim>\<open>null\<close>, \<^verbatim>\<open>false\<close>, \<^verbatim>\<open>0\<close> and the empty string
  are falsy; arrays and objects are always truthy.
\<close>

datatype json =
  JNull
  | JBool bool
  | JNum real
  | JStr string
  | JArr "json list"
  | JObj "(string \<times> json) list"

fun json_truthy :: "json \<Rightarrow> bool" where
  "json_truthy JNull = False"
| "json_truthy (JBool b) = b"
| "json_truthy (JNum x) = (x \<noteq> 0)"
| "json_truthy (JStr s) = (s \<noteq> [])"
| "json_truthy (JArr _) = True"
| "json_truthy (JObj _) = True"

text \<open>
  The part of the \<^verbatim>\<open>Dashboard\<close> component state that the features and cluster
  handlers read and write (each \<^verbatim>\<open>useState\<close> starts at
  \<^verbatim>\<open>null\<close> or \<^verbatim>\<open>false\<close>), and the requests sent to the API, oldest first.
\<close>

record dashboard =
  features :: json
  computingFeatures :: bool
  featuresOpen :: bool
  cluster :: json
  fetchingCluster :: bool
  clusterOpen :: bool
  requests :: "string list"

definition initial_dashboard :: dashboard where
  "initial_dashboard =
     \<lparr>features = JNull, computingFeatures = False, featuresOpen = False,
      cluster = JNull, fetchingCluster = False, clusterOpen = False,
      requests = []\<rparr>"

text \<open>
  \<^verbatim>\<open>profileAPI.getFeatures(forceRefresh = false)\<close> requests
  \<^verbatim>\<open>/api/features?force_refresh=${forceRefresh}\<close>;
  \<^verbatim>\<open>profileAPI.getCluster()\<close> requests \<^verbatim>\<open>/api/cluster\<close>. The answer of the server, after the
  interceptors, is a parameter of the model: \<open>Inr\<close> the response data, \<open>Inl\<close> the
  error of a rejected request.
\<close>

definition getFeatures_url :: "bool \<Rightarrow> string" where
  "getFeatures_url forceRefresh =
     ''/api/features?force_refresh='' @ (if forceRefresh then ''true'' else ''false'')"

definition getCluster_url :: string where
  "getCluster_url = ''/api/cluster''"

text \<open>
  \<^verbatim>\<open>
  const handleComputeFeatures = async (forceFetch = false) => {
      if (features && !forceFetch) { setFeaturesOpen(!featuresOpen); return; }
      if (computingFeatures) return;
      setComputingFeatures(true);
      try {
          const data = await profileAPI.getFeatures(true);
          setFeatures(data);
          if (!forceFetch) setFeaturesOpen(true);
      } catch (err: any) { } finally { setComputingFeatures(false); }
  };
  \<close>
  The handler is an \<^verbatim>\<open>async\<close> function whose only \<^verbatim>\<open>await\<close> stands inside a
  \<^verbatim>\<open>try\<close> with an empty \<^verbatim>\<open>catch\<close>: its promise always fulfils, so the model
  returns the new state only.
\<close>

definition handleComputeFeatures :: "bool \<Rightarrow> (axios_error + json) \<Rightarrow> dashboard \<Rightarrow> dashboard" where
  "handleComputeFeatures forceFetch answer st =
     (if json_truthy (features st) \<and> \<not> forceFetch then st\<lparr>featuresOpen := \<not> featuresOpen st\<rparr>
      else if computingFeatures st then st
      else
        (let st1 = st\<lparr>computingFeatures := True, requests := requests st @ [getFeatures_url True]\<rparr>;
             st2 = (case answer of
                      Inr data \<Rightarrow>
                        (let st' = st1\<lparr>features := data\<rparr>
                         in if \<not> forceFetch then st'\<lparr>featuresOpen := True\<rparr> else st')
                    | Inl err \<Rightarrow> st1)
         in st2\<lparr>computingFeatures := False\<rparr>))"

text \<open>
  \<^verbatim>\<open>
  const handleGetCluster = async (forceFetch = false) => {
      if (cluster && !forceFetch) { setClusterOpen(!clusterOpen); return; }
      if (fetchingCluster) return;
      setFetchingCluster(true);
      try {
          const data = await profileAPI.getCluster();
          setCluster(data);
          if (!forceFetch) setClusterOpen(true);
      } catch (err: any) { } finally { setFetchingCluster(false); }
  };
  \<close>
\<close>

definition handleGetCluster :: "bool \<Rightarrow> (axios_error + json) \<Rightarrow> dashboard \<Rightarrow> dashboard" where
  "handleGetCluster forceFetch answer st =
     (if json_truthy (cluster st) \<and> \<not> forceFetch then st\<lparr>clusterOpen := \<not> clusterOpen st\<rparr>
      else if fetchingCluster st then st
      else
        (let st1 = st\<lparr>fetchingCluster := True, requests := requests st @ [getCluster_url]\<rparr>;
             st2 = (case answer of
                      Inr data \<Rightarrow>
                        (let st' = st1\<lparr>cluster := data\<rparr>
                         in if \<not> forceFetch then st'\<lparr>clusterOpen := True\<rparr> else st')
                    | Inl err \<Rightarrow> st1)
         in st2\<lparr>fetchingCluster := False\<rparr>))"

text \<open>
  \<^verbatim>\<open>profileAPI.getRecommendations(limit = 20)\<close> asks for 20 recommendations unless
  told otherwise, and the dashboard calls it without an argument. The Discovery section
  renders \<^verbatim>\<open>recs.tracks?.slice(0, 20)\<close>: the first 20 tracks of the answer.
\<close>

definition default_limit :: nat where
  "default_limit = 20"

definition tracks_shown :: "'a list \<Rightarrow> 'a list" where
  "tracks_shown tracks = take 20 tracks"

section \<open>The behavioral modeling and recommendation pipeline\<close>

text \<open>
  The pipeline (feature aggregation, profile cache, clustering, recommendation,
  evaluation, insights) runs in the backend service, whose code is not among the
  repository's source files at hand: only the client that calls it is. Its operations are
  therefore modelled from the specification; each such definition says so.
\<close>

subsection \<open>Data model\<close>

text \<open>The failures of the pipeline (specification, section 7).\<close>

datatype pipeline_error =
  InsufficientDataError
  | ModelNotFitError
  | DimensionMismatchError

text \<open>
  Modelled from the spec: the \<^verbatim>\<open>Track\<close> of section 3 (the catalog adapter's track type
  is missing). An audio attribute that the catalog did not deliver is \<open>None\<close>.
\<close>

record audio_attributes =
  danceability :: "real option"
  energy :: "real option"
  valence :: "real option"
  tempo :: "real option"
  acousticness :: "real option"
  instrumentalness :: "real option"
  speechiness :: "real option"

record track =
  track_id :: string
  track_name :: string
  artists :: "string list"
  album :: string
  popularity :: nat
  release_year :: nat
  genres :: "string list"
  audio :: audio_attributes

text \<open>
  Modelled from the spec: the \<^verbatim>\<open>BehavioralFeatureVector\<close> of section 3 (the
  aggregator's result type is missing).
\<close>

record behavioral_features =
  repeat_rate :: real
  exploration_score :: real
  genre_diversity :: real
  mean_audio :: "real list"
  popularity_bias :: real

definition feature_point :: "behavioral_features \<Rightarrow> real list" where
  "feature_point v =
     [repeat_rate v, exploration_score v, genre_diversity v] @ mean_audio v @ [popularity_bias v]"

text \<open>
  Modelled from the spec: \<^verbatim>\<open>ClusterAssignment\<close>, \<^verbatim>\<open>ClusterModel\<close> and
  \<^verbatim>\<open>UserProfile\<close> of section 3 (the backend's types are missing). Times are seconds
  on the server's clock.
\<close>

record cluster_assignment =
  cluster_id :: nat
  distance_to_centroid :: real
  persona_label :: string
  description :: string

record cluster_model =
  centroids :: "real list list"
  persona_table :: "(string \<times> string) list"
  fit_timestamp :: int
  population_size :: nat

record user_profile =
  profile_user_id :: string
  profile_tracks :: "track list"
  profile_features :: behavioral_features
  profile_cluster :: "cluster_assignment option"
  computed_at :: int

subsection \<open>Distances and nearest centroids\<close>

definition sqdist :: "real list \<Rightarrow> real list \<Rightarrow> real" where
  "sqdist x y = (\<Sum>(a, b)\<leftarrow>zip x y. (a - b)\<^sup>2)"

definition euclidean :: "real list \<Rightarrow> real list \<Rightarrow> real" where
  "euclidean x y = sqrt (sqdist x y)"

text \<open>The index of the first least element of a list of distances (0 for the empty list).\<close>

fun argmin_idx :: "real list \<Rightarrow> nat" where
  "argmin_idx [] = 0"
| "argmin_idx [d] = 0"
| "argmin_idx (d # ds) = (let j = argmin_idx ds in if d \<le> ds ! j then 0 else Suc j)"

definition nearest :: "real list list \<Rightarrow> real list \<Rightarrow> nat" where
  "nearest cs v = argmin_idx (map (euclidean v) cs)"

subsection \<open>Cluster assignment\<close>

text \<open>
  Modelled from the spec: \<^verbatim>\<open>assign(model, vector) -> ClusterAssignment\<close> of section 4.4
  (the cluster assigner is missing). It finds the nearest centroid by Euclidean
  distance and returns the cluster id, the distance and the label and description of the
  cluster. It fails with \<open>ModelNotFitError\<close> when no model exists yet, and with
  \<open>DimensionMismatchError\<close> when the vector has not the length of the centroids
  (section 7). A model without centroids counts as not fit.
\<close>

definition persona_of :: "cluster_model \<Rightarrow> nat \<Rightarrow> string \<times> string" where
  "persona_of m i = (if i < length (persona_table m) then persona_table m ! i else ([], []))"

definition assign :: "cluster_model option \<Rightarrow> real list \<Rightarrow> pipeline_error + cluster_assignment" where
  "assign model v =
     (case model of
        None \<Rightarrow> Inl ModelNotFitError
      | Some m \<Rightarrow>
          if centroids m = [] then Inl ModelNotFitError
          else if \<exists>c \<in> set (centroids m). length c \<noteq> length v then Inl DimensionMismatchError
          else
            (let i = nearest (centroids m) v
             in Inr \<lparr>cluster_id = i,
                     distance_to_centroid = euclidean v (centroids m ! i),
                     persona_label = fst (persona_of m i),
                     description = snd (persona_of m i)\<rparr>))"

text \<open>
  Modelled from the spec: the caller of \<open>assign\<close>, \<^verbatim>\<open>get_cluster(user_id)\<close> of
  section 6 (the backend route is missing). On \<open>ModelNotFitError\<close> it falls back to a
  single default cluster; \<open>DimensionMismatchError\<close> propagates (section 7).
\<close>

definition default_assignment :: cluster_assignment where
  "default_assignment =
     \<lparr>cluster_id = 0, distance_to_centroid = 0, persona_label = ''Default'',
      description = ''No cluster model has been fit yet''\<rparr>"

definition get_cluster :: "cluster_model option \<Rightarrow> real list \<Rightarrow> pipeline_error + cluster_assignment" where
  "get_cluster model v =
     (case assign model v of
        Inl ModelNotFitError \<Rightarrow> Inr default_assignment
      | Inl e \<Rightarrow> Inl e
      | Inr a \<Rightarrow> Inr a)"

subsection \<open>Profile cache\<close>

text \<open>
  Modelled from the spec: \<^verbatim>\<open>get_or_compute(user_id, compute_fn, force_refresh)\<close> of
  section 4.3 (the profile cache is missing). The cache holds at most one profile per
  user id. A cached profile is served when it is not stale (its age is below the TTL)
  and no refresh is forced; otherwise \<open>compute_fn\<close> is invoked, the entry is replaced
  by the fresh profile, stamped with the time of the computation, and the fresh profile
  is returned. The result records how often \<open>compute_fn\<close> was invoked.
\<close>

type_synonym profile_cache = "string \<rightharpoonup> user_profile"

record cache_result =
  returned :: user_profile
  cache_after :: profile_cache
  invocations :: nat

definition is_stale :: "int \<Rightarrow> int \<Rightarrow> user_profile \<Rightarrow> bool" where
  "is_stale ttl now p = (\<not> (now - computed_at p < ttl))"

definition recompute :: "int \<Rightarrow> profile_cache \<Rightarrow> string \<Rightarrow> (string \<Rightarrow> user_profile) \<Rightarrow> cache_result" where
  "recompute now cache user_id compute_fn =
     (let fresh = (compute_fn user_id)\<lparr>computed_at := now\<rparr>
      in \<lparr>returned = fresh, cache_after = cache(user_id \<mapsto> fresh), invocations = 1\<rparr>)"

definition get_or_compute ::
  "int \<Rightarrow> int \<Rightarrow> profile_cache \<Rightarrow> string \<Rightarrow> (string \<Rightarrow> user_profile) \<Rightarrow> bool \<Rightarrow> cache_result" where
  "get_or_compute ttl now cache user_id compute_fn force_refresh =
     (case cache user_id of
        Some p \<Rightarrow>
          if \<not> is_stale ttl now p \<and> \<not> force_refresh
          then \<lparr>returned = p, cache_after = cache, invocations = 0\<rparr>
          else recompute now cache user_id compute_fn
      | None \<Rightarrow> recompute now cache user_id compute_fn)"

text \<open>
  Modelled from the spec: \<^verbatim>\<open>get_features(user_id, force_refresh)\<close> of section 6 (the
  backend route is missing): the behavioral features of the profile that the cache
  returns.
\<close>

definition get_features ::
  "int \<Rightarrow> int \<Rightarrow> profile_cache \<Rightarrow> (string \<Rightarrow> user_profile) \<Rightarrow> string \<Rightarrow> bool \<Rightarrow> behavioral_features \<times> profile_cache" where
  "get_features ttl now cache compute_fn user_id force_refresh =
     (let r = get_or_compute ttl now cache user_id compute_fn force_refresh
      in (profile_features (returned r), cache_after r))"

subsection \<open>Entropy of a genre distribution\<close>

text \<open>
  The genre frequency distribution of a list of tracks: for every genre that occurs, the
  number of tracks that carry it (a track's genres are a set, so a genre listed twice on
  one track counts once). The genres stand in the order of their first occurrence.
\<close>

definition genre_occurrences :: "track list \<Rightarrow> string list" where
  "genre_occurrences ts = concat (map (\<lambda>t. remdups (genres t)) ts)"

definition genre_counts :: "track list \<Rightarrow> nat list" where
  "genre_counts ts = map (count_list (genre_occurrences ts)) (remdups (genre_occurrences ts))"

text \<open>
  Shannon entropy, in bits, of the distribution given by a list of counts:
  \<open>- \<Sum> p\<^sub>i log\<^sub>2 p\<^sub>i\<close> with \<open>p\<^sub>i = c\<^sub>i / \<Sum> c\<close>; a count of zero contributes
  nothing.
\<close>

definition shannon_entropy :: "nat list \<Rightarrow> real" where
  "shannon_entropy cs =
     - (\<Sum>c\<leftarrow>cs. if c = 0 then 0
                  else (real c / real (sum_list cs)) * log 2 (real c / real (sum_list cs)))"

text \<open>
  Entropy normalised by its maximum, the logarithm of the number of categories that
  occur; 0 when fewer than two categories occur.
\<close>

definition normalized_entropy :: "nat list \<Rightarrow> real" where
  "normalized_entropy cs =
     (let m = length (filter (\<lambda>c. 0 < c) cs)
      in if m \<le> 1 then 0 else shannon_entropy cs / log 2 (real m))"

subsection \<open>Behavioral feature aggregator\<close>

text \<open>
  Arithmetic that can go wrong is modelled with \<open>option\<close>: a quotient with a zero
  divisor and the mean of no values are \<open>None\<close>. In the program they would be an
  exception or a NaN.
\<close>

definition ratio :: "real \<Rightarrow> real \<Rightarrow> real option" where
  "ratio a b = (if b = 0 then None else Some (a / b))"


definition clamp01 :: "real \<Rightarrow> real" where
  "clamp01 x = max 0 (min 1 x)"


text \<open>
  Modelled from the spec: the audio components of \<^verbatim>\<open>extract(track)\<close> (section 4.1;
  the track feature extractor is missing). A missing attribute is imputed with the
  neutral midpoint 1/2; a delivered one is kept within its range \<open>[0, 1]\<close>.
\<close>

definition audio_component :: "real option \<Rightarrow> real" where
  "audio_component a = (case a of None \<Rightarrow> 1/2 | Some x \<Rightarrow> clamp01 x)"

definition audio_fields :: "(audio_attributes \<Rightarrow> real option) list" where
  "audio_fields =
     [danceability, energy, valence, tempo, acousticness, instrumentalness, speechiness]"

definition audio_vector :: "track \<Rightarrow> real list" where
  "audio_vector t = map (\<lambda>field. audio_component (field (audio t))) audio_fields"







subsection \<open>Evaluation engine\<close>

text \<open>
  Modelled from the spec: \<^verbatim>\<open>Recommendation\<close> and \<^verbatim>\<open>EvaluationResult\<close> of section 3
  (the backend's types are missing).
\<close>

record recommendation =
  rec_track :: track
  rec_score :: real
  rec_rank :: nat

record evaluation_result =
  precision_at_k :: real
  recall_at_k :: real
  f1_at_k :: real
  diversity_score :: real

text \<open>
  The identifiers of \<^verbatim>\<open>recommendations[:k]\<close>, and the number of distinct ones among
  them that are in the ground truth: \<^verbatim>\<open>|recommendations[:k] \<inter> ground_truth|\<close>.
\<close>

definition top_ids :: "recommendation list \<Rightarrow> nat \<Rightarrow> string list" where
  "top_ids recommendations k = map (\<lambda>r. track_id (rec_track r)) (take k recommendations)"

definition hits :: "recommendation list \<Rightarrow> string list \<Rightarrow> nat \<Rightarrow> nat" where
  "hits recommendations ground_truth k = length (filter (\<lambda>i. i \<in> set ground_truth) (remdups (top_ids recommendations k)))"

text \<open>
  Modelled from the spec: \<^verbatim>\<open>evaluate(recommendations, ground_truth, k)\<close> of section
  4.6 (the evaluation engine is missing). The ground truth is the set of identifiers of
  the held-out tracks, given as a list. Precision is the number of hits over \<open>k\<close>;
  recall is the number of hits over the size of the ground truth, and 0 when the ground
  truth is empty; F1 is the harmonic mean of the two, and 0 when both are 0; the
  diversity score is the normalised entropy of the genres of
  \<^verbatim>\<open>recommendations[:k]\<close>. The spec gives no value for precision at \<open>k = 0\<close>; by its
  rule that metrics degrade to a default instead of failing (section 7), the model
  gives 0.
\<close>

definition harmonic_mean :: "real \<Rightarrow> real \<Rightarrow> real" where
  "harmonic_mean p r = (if p + r = 0 then 0 else 2 * p * r / (p + r))"

definition evaluate :: "recommendation list \<Rightarrow> string list \<Rightarrow> nat \<Rightarrow> evaluation_result" where
  "evaluate recommendations ground_truth k =
     (let h = hits recommendations ground_truth k;
          p = (if k = 0 then 0 else real h / real k);
          r = (if ground_truth = [] then 0 else real h / real (length (remdups ground_truth)))
      in \<lparr>precision_at_k = p,
          recall_at_k = r,
          f1_at_k = harmonic_mean p r,
          diversity_score = normalized_entropy (genre_counts (map rec_track (take k recommendations)))\<rparr>)"

subsection \<open>Recommendation engine\<close>

text \<open>
  The ranking order of recommendations: higher score first; on equal scores the more
  popular candidate first; on equal popularity the smaller identifier first
  (identifiers compare as strings, character by character).
\<close>

definition ranks_before :: "recommendation \<Rightarrow> recommendation \<Rightarrow> bool" where
  "ranks_before a b =
     (rec_score b < rec_score a
      \<or> (rec_score a = rec_score b
          \<and> (popularity (rec_track b) < popularity (rec_track a)
              \<or> (popularity (rec_track a) = popularity (rec_track b)
                  \<and> track_id (rec_track a) \<le> track_id (rec_track b)))))"

definition ranks_strictly_before :: "recommendation \<Rightarrow> recommendation \<Rightarrow> bool" where
  "ranks_strictly_before a b =
     (rec_score b < rec_score a
      \<or> (rec_score a = rec_score b
          \<and> (popularity (rec_track b) < popularity (rec_track a)
              \<or> (popularity (rec_track a) = popularity (rec_track b)
                  \<and> track_id (rec_track a) < track_id (rec_track b)))))"

fun insert_ranked :: "recommendation \<Rightarrow> recommendation list \<Rightarrow> recommendation list" where
  "insert_ranked r [] = [r]"
| "insert_ranked r (x # xs) =
     (if ranks_before r x then r # x # xs else x # insert_ranked r xs)"

fun rank_sort :: "recommendation list \<Rightarrow> recommendation list" where
  "rank_sort [] = []"
| "rank_sort (r # rs) = insert_ranked r (rank_sort rs)"

text \<open>
  Deduplication by identifier: a candidate is dropped when its identifier is already
  known, that is, belongs to one of the user's tracks or to an earlier candidate.
\<close>

fun dedup_by_id :: "string list \<Rightarrow> track list \<Rightarrow> track list" where
  "dedup_by_id known [] = []"
| "dedup_by_id known (t # ts) =
     (if track_id t \<in> set known then dedup_by_id known ts
      else t # dedup_by_id (track_id t # known) ts)"

definition known_ids :: "user_profile \<Rightarrow> string list" where
  "known_ids profile = map track_id (profile_tracks profile)"

definition candidates :: "user_profile \<Rightarrow> track list \<Rightarrow> track list" where
  "candidates profile candidate_pool = dedup_by_id (known_ids profile) candidate_pool"

fun number_from :: "nat \<Rightarrow> recommendation list \<Rightarrow> recommendation list" where
  "number_from n [] = []"
| "number_from n (r # rs) = r\<lparr>rec_rank := n\<rparr> # number_from (Suc n) rs"

text \<open>
  Modelled from the spec: \<^verbatim>\<open>recommend(profile, candidate_pool, limit)\<close> of section 4.5
  (the recommendation engine is missing). The candidate pool is deduplicated by
  identifier against the user's known set, every candidate is scored, the candidates
  are ordered by \<open>ranks_before\<close>, the first \<open>limit\<close> are kept and ranked from 1.
  When no candidate is left after deduplication, the engine reports
  \<open>InsufficientDataError\<close> (section 7: recommendation with zero candidates reports it
  explicitly). The spec leaves the similarity metric and the weights of the score open
  (section 9); the scoring function is a parameter of the model, so that everything
  proved holds for every choice of it.
\<close>

definition scored :: "(user_profile \<Rightarrow> track \<Rightarrow> real) \<Rightarrow> user_profile \<Rightarrow> track \<Rightarrow> recommendation" where
  "scored score profile t = \<lparr>rec_track = t, rec_score = score profile t, rec_rank = 0\<rparr>"

definition recommend ::
  "(user_profile \<Rightarrow> track \<Rightarrow> real) \<Rightarrow> user_profile \<Rightarrow> track list \<Rightarrow> nat
     \<Rightarrow> pipeline_error + recommendation list" where
  "recommend score profile candidate_pool limit =
     (let cands = candidates profile candidate_pool
      in if cands = [] then Inl InsufficientDataError
         else Inr (number_from 1 (take limit (rank_sort (map (scored score profile) cands)))))"

subsection \<open>Insights engine\<close>

text \<open>
  Modelled from the spec: the \<^verbatim>\<open>InsightsResult\<close> of section 3 and
  \<^verbatim>\<open>analyze(profile, population_baseline)\<close> of section 4.7 (the insights engine is
  missing). The entropy score is the Shannon entropy, in bits, of the genre frequency
  distribution of the user's tracks. The uniqueness score is the distance between the
  user's feature vector and the population baseline, saturated into \<open>[0, 1)\<close> by
  \<open>1 - exp (- d)\<close>. The mood label and the genre evolution of the result are not
  modelled.
\<close>

record insights_result =
  entropy_score :: real
  unique_score :: real

definition analyze :: "user_profile \<Rightarrow> real list \<Rightarrow> insights_result" where
  "analyze profile population_baseline =
     \<lparr>entropy_score = shannon_entropy (genre_counts (profile_tracks profile)),
      unique_score = 1 - exp (- euclidean (feature_point (profile_features profile)) population_baseline)\<rparr>"

subsection \<open>Fitting the cluster model\<close>

text \<open>The least element of a list of distances (0 for the empty list).\<close>

fun least :: "real list \<Rightarrow> real" where
  "least [] = 0"
| "least [d] = d"
| "least (d # ds) = min d (least ds)"

text \<open>The index of the first greatest element of a list of distances.\<close>

fun argmax_idx :: "real list \<Rightarrow> nat" where
  "argmax_idx [] = 0"
| "argmax_idx [d] = 0"
| "argmax_idx (d # ds) = (let j = argmax_idx ds in if ds ! j \<le> d then 0 else Suc j)"

text \<open>
  The point of the population that is farthest from a set of centroids: the one whose
  Euclidean distance to the nearest of them is greatest, the first such point on ties.
\<close>

definition dist_to_nearest :: "real list list \<Rightarrow> real list \<Rightarrow> real" where
  "dist_to_nearest cs v = least (map (euclidean v) cs)"

definition farthest_point :: "real list list \<Rightarrow> real list list \<Rightarrow> real list" where
  "farthest_point cs population = population ! argmax_idx (map (dist_to_nearest cs) population)"

text \<open>
  Deterministic farthest-point seeding: the first centroid is the first point of the
  population, and every further centroid is the point farthest from those chosen so far.
\<close>

fun seed_more :: "nat \<Rightarrow> real list list \<Rightarrow> real list list \<Rightarrow> real list list" where
  "seed_more 0 cs population = cs"
| "seed_more (Suc n) cs population = seed_more n (cs @ [farthest_point cs population]) population"

definition init_centroids :: "nat \<Rightarrow> real list list \<Rightarrow> real list list" where
  "init_centroids k population =
     (case population of [] \<Rightarrow> [] | p # _ \<Rightarrow> seed_more (k - 1) [p] population)"

text \<open>The assignment step: every point goes to its nearest centroid.\<close>

definition assign_all :: "real list list \<Rightarrow> real list list \<Rightarrow> nat list" where
  "assign_all cs population = map (nearest cs) population"

text \<open>The points assigned to cluster \<open>j\<close>, and the clusters without points.\<close>

definition members :: "nat \<Rightarrow> nat list \<Rightarrow> real list list \<Rightarrow> real list list" where
  "members j a population = map snd (filter (\<lambda>(i, p). i = j) (zip a population))"

definition empty_clusters :: "nat \<Rightarrow> nat list \<Rightarrow> real list list \<Rightarrow> nat list" where
  "empty_clusters k a population = filter (\<lambda>j. members j a population = []) [0..<k]"


text \<open>
  The update step. The centroid of a cluster with points becomes the mean of its points,
  coordinate by coordinate. Then every centroid that received no point is
  reinitialised, in the order of the cluster ids, to the point farthest from all other
  centroids.
\<close>

definition mean_point :: "nat \<Rightarrow> real list list \<Rightarrow> real list" where
  "mean_point d pts = map (\<lambda>j. (\<Sum>p\<leftarrow>pts. p ! j) / real (length pts)) [0..<d]"

definition recompute_means :: "real list list \<Rightarrow> nat list \<Rightarrow> real list list \<Rightarrow> real list list" where
  "recompute_means cs a population =
     map (\<lambda>j. if members j a population = [] then cs ! j
              else mean_point (length (cs ! j)) (members j a population))
         [0..<length cs]"

definition others :: "real list list \<Rightarrow> nat \<Rightarrow> real list list" where
  "others cs j = take j cs @ drop (Suc j) cs"

fun reinit :: "nat list \<Rightarrow> real list list \<Rightarrow> real list list \<Rightarrow> real list list" where
  "reinit [] cs population = cs"
| "reinit (j # js) cs population =
     reinit js (cs[j := farthest_point (others cs j) population]) population"

definition update_centroids :: "real list list \<Rightarrow> nat list \<Rightarrow> real list list \<Rightarrow> real list list" where
  "update_centroids cs a population =
     reinit (empty_clusters (length cs) a population) (recompute_means cs a population) population"

text \<open>
  The iteration. One round updates the centroids from the current assignment and
  assigns every point again; the loop stops when the assignment did not change, or
  when the bound on the number of rounds is used up (the first argument counts the
  rounds left, the second the rounds done).
\<close>

record fit_run =
  final_centroids :: "real list list"
  final_assignment :: "nat list"
  iterations :: nat
  converged :: bool

fun lloyd :: "nat \<Rightarrow> nat \<Rightarrow> real list list \<Rightarrow> nat list \<Rightarrow> real list list \<Rightarrow> fit_run" where
  "lloyd 0 n cs a population =
     \<lparr>final_centroids = cs, final_assignment = a, iterations = n, converged = False\<rparr>"
| "lloyd (Suc fuel) n cs a population =
     (let cs' = update_centroids cs a population;
          a' = assign_all cs' population
      in if a' = a
         then \<lparr>final_centroids = cs', final_assignment = a', iterations = Suc n, converged = True\<rparr>
         else lloyd fuel (Suc n) cs' a' population)"

text \<open>
  Modelled from the spec: \<^verbatim>\<open>fit(population, k) -> ClusterModel\<close> of section 4.4 (the
  cluster assigner is missing), with the maximum number of iterations as a parameter.
  An empty population or \<open>k = 0\<close> is \<open>InsufficientDataError\<close>; vectors of different
  lengths are \<open>DimensionMismatchError\<close> (section 7). \<open>fit_clusters\<close> is the run of
  the algorithm with the final assignment of the training points; \<open>fit\<close> packs its
  centroids into the model, with the persona of each centroid given by the rule table
  \<open>persona_rule\<close>.
\<close>

definition fit_clusters :: "real list list \<Rightarrow> nat \<Rightarrow> nat \<Rightarrow> pipeline_error + fit_run" where
  "fit_clusters population k max_iterations =
     (case population of
        [] \<Rightarrow> Inl InsufficientDataError
      | p # _ \<Rightarrow>
          if k = 0 then Inl InsufficientDataError
          else if \<exists>q \<in> set population. length q \<noteq> length p then Inl DimensionMismatchError
          else
            (let cs = init_centroids k population
             in Inr (lloyd max_iterations 0 cs (assign_all cs population) population)))"

definition fit ::
  "(real list \<Rightarrow> string \<times> string) \<Rightarrow> int \<Rightarrow> real list list \<Rightarrow> nat \<Rightarrow> nat \<Rightarrow> pipeline_error + cluster_model" where
  "fit persona_rule now population k max_iterations =
     (case fit_clusters population k max_iterations of
        Inl e \<Rightarrow> Inl e
      | Inr r \<Rightarrow>
          Inr \<lparr>centroids = final_centroids r,
               persona_table = map persona_rule (final_centroids r),
               fit_timestamp = now,
               population_size = length population\<rparr>)"




subsection \<open>Exposed operations\<close>

text \<open>
  Modelled from the spec: the operations exposed to the API layer (section 6; the
  backend routes are missing). Apart from \<open>get_features\<close>, which takes the
  \<open>force_refresh\<close> flag, every operation obtains the user's profile from the profile
  cache without forcing a refresh (section 2: the cache is consulted and updated by
  every component that needs the user vector) and computes its answer from that
  profile. \<open>serve\<close> is this common part: it returns the answer, the cache after the
  call and the number of invocations of \<open>compute_fn\<close>.
\<close>

record 'a served =
  served_answer :: 'a
  served_cache :: profile_cache
  computed :: nat

definition serve ::
  "int \<Rightarrow> int \<Rightarrow> profile_cache \<Rightarrow> (string \<Rightarrow> user_profile) \<Rightarrow> string \<Rightarrow> (user_profile \<Rightarrow> 'a) \<Rightarrow> 'a served" where
  "serve ttl now cache compute_fn user_id view =
     (let r = get_or_compute ttl now cache user_id compute_fn False
      in \<lparr>served_answer = view (returned r), served_cache = cache_after r, computed = invocations r\<rparr>)"

text \<open>
  \<^verbatim>\<open>get_cluster(user_id)\<close>: the cluster of the user's feature vector under the
  current model. \<^verbatim>\<open>get_recommendations(user_id, limit)\<close>: the recommendations for the
  user from the candidate pool. \<^verbatim>\<open>get_evaluation(user_id, k)\<close>: the metrics of the
  current recommendations against the ground truth; without recommendations the
  metrics are those of the empty list (section 7: metrics degrade to their defaults).
  \<^verbatim>\<open>get_insights(user_id)\<close>: the insights of the profile.
\<close>

definition api_get_cluster ::
  "int \<Rightarrow> int \<Rightarrow> profile_cache \<Rightarrow> (string \<Rightarrow> user_profile) \<Rightarrow> cluster_model option \<Rightarrow> string
     \<Rightarrow> (pipeline_error + cluster_assignment) served" where
  "api_get_cluster ttl now cache compute_fn model user_id =
     serve ttl now cache compute_fn user_id
       (\<lambda>p. get_cluster model (feature_point (profile_features p)))"

definition api_get_recommendations ::
  "int \<Rightarrow> int \<Rightarrow> profile_cache \<Rightarrow> (string \<Rightarrow> user_profile) \<Rightarrow> (user_profile \<Rightarrow> track \<Rightarrow> real)
     \<Rightarrow> track list \<Rightarrow> string \<Rightarrow> nat \<Rightarrow> (pipeline_error + recommendation list) served" where
  "api_get_recommendations ttl now cache compute_fn score candidate_pool user_id limit =
     serve ttl now cache compute_fn user_id (\<lambda>p. recommend score p candidate_pool limit)"

definition api_get_evaluation ::
  "int \<Rightarrow> int \<Rightarrow> profile_cache \<Rightarrow> (string \<Rightarrow> user_profile) \<Rightarrow> (user_profile \<Rightarrow> track \<Rightarrow> real)
     \<Rightarrow> track list \<Rightarrow> string list \<Rightarrow> string \<Rightarrow> nat \<Rightarrow> evaluation_result served" where
  "api_get_evaluation ttl now cache compute_fn score candidate_pool ground_truth user_id k =
     serve ttl now cache compute_fn user_id
       (\<lambda>p. case recommend score p candidate_pool k of
              Inr recommendations \<Rightarrow> evaluate recommendations ground_truth k
            | Inl e \<Rightarrow> evaluate [] ground_truth k)"

definition api_get_insights ::
  "int \<Rightarrow> int \<Rightarrow> profile_cache \<Rightarrow> (string \<Rightarrow> user_profile) \<Rightarrow> real list \<Rightarrow> string
     \<Rightarrow> insights_result served" where
  "api_get_insights ttl now cache compute_fn population_baseline user_id =
     serve ttl now cache compute_fn user_id (\<lambda>p. analyze p population_baseline)"

section \<open>Sample data\<close>

text \<open>Concrete inputs on which the properties below are instantiated.\<close>

definition sample_features :: behavioral_features where
  "sample_features =
     \<lparr>repeat_rate = 1/4, exploration_score = 3/4, genre_diversity = 1/2,
      mean_audio = [1/2, 1/2, 1/2, 1/2, 1/2, 1/2, 1/2], popularity_bias = 3/5\<rparr>"

definition sample_profile :: user_profile where
  "sample_profile =
     \<lparr>profile_user_id = ''user1'', profile_tracks = [], profile_features = sample_features,
      profile_cluster = None, computed_at = 100\<rparr>"

definition sample_compute :: "string \<Rightarrow> user_profile" where
  "sample_compute u = sample_profile\<lparr>profile_user_id := u\<rparr>"

definition no_audio :: audio_attributes where
  "no_audio =
     \<lparr>danceability = None, energy = None, valence = None, tempo = None,
      acousticness = None, instrumentalness = None, speechiness = None\<rparr>"

definition sample_track :: "string \<Rightarrow> nat \<Rightarrow> string list \<Rightarrow> track" where
  "sample_track i p gs =
     \<lparr>track_id = i, track_name = i, artists = [], album = [], popularity = p,
      release_year = 2020, genres = gs, audio = no_audio\<rparr>"

definition sample_rec :: "string \<Rightarrow> nat \<Rightarrow> recommendation" where
  "sample_rec i n = \<lparr>rec_track = sample_track i 50 [''rock''], rec_score = 1, rec_rank = n\<rparr>"














section \<open>Properties of the client\<close>

lemma truthy_simps:
  "truthy None = False" "truthy (Some s) = (s \<noteq> [])"
  by (simp_all add: truthy_def)

lemma getToken_saveToken: "getToken (saveToken t st) = Some t"
  by (simp add: getToken_def saveToken_def getItem_def setItem_def)

lemma getToken_removeToken: "getToken (removeToken st) = None"
  by (simp add: getToken_def removeToken_def getItem_def removeItem_def)

text \<open>
  C10 (as amended). For every token string \<open>t\<close>, after \<open>saveToken t\<close> the call
  \<open>getToken\<close> returns \<open>t\<close>; \<open>isAuthenticated\<close> returns true exactly when \<open>t\<close> is
  not the empty string. After \<open>removeToken\<close>, \<open>getToken\<close> returns null and
  \<open>isAuthenticated\<close> returns false. The round trip goes through the
  \<^verbatim>\<open>resona_token\<close> key of localStorage.
\<close>

theorem tokenManager_roundtrip:
  "getToken (saveToken t st) = Some t
   \<and> localStorage (saveToken t st) ''resona_token'' = Some t
   \<and> (isAuthenticated (saveToken t st) \<longleftrightarrow> t \<noteq> [])
   \<and> (t \<noteq> [] \<longrightarrow> isAuthenticated (saveToken t st))
   \<and> getToken (removeToken st) = None
   \<and> \<not> isAuthenticated (removeToken st)"
  by (simp add: getToken_def saveToken_def removeToken_def isAuthenticated_def
      getItem_def setItem_def removeItem_def truthy_def)

theorem tokenManager_roundtrip_witness:
  "getToken (saveToken ''jwt'' fresh_browser) = Some ''jwt''
   \<and> ''jwt'' \<noteq> []
   \<and> isAuthenticated (saveToken ''jwt'' fresh_browser)
   \<and> getToken (removeToken (saveToken ''jwt'' fresh_browser)) = None
   \<and> \<not> isAuthenticated (removeToken (saveToken ''jwt'' fresh_browser))"
  using tokenManager_roundtrip [of "''jwt''" fresh_browser]
    tokenManager_roundtrip [of "''jwt''" "saveToken ''jwt'' fresh_browser"]
  by simp

text \<open>
  C10 as stated fails at the empty token: \<^verbatim>\<open>saveToken('')\<close> stores the empty string,
  \<open>getToken\<close> returns it, and \<^verbatim>\<open>!!''\<close> is false.
\<close>

theorem tokenManager_empty_token_counterexample:
  "getToken (saveToken [] fresh_browser) = Some [] \<and> \<not> isAuthenticated (saveToken [] fresh_browser)"
  by (simp add: getToken_def saveToken_def isAuthenticated_def getItem_def setItem_def
      truthy_def fresh_browser_def)

text \<open>
  C9. For every failed HTTP response, the response interceptor rejects with the error it
  was given. When the response status is 401 it removes \<^verbatim>\<open>resona_token\<close> from
  localStorage (touching no other key) and assigns \<^verbatim>\<open>window.location.href = '/'\<close>;
  for every other status, and when there is no response at all, the browser state is
  left as it was.
\<close>

theorem response_interceptor_401:
  "fst (response_onRejected error st) = Inl error
   \<and> (map_option status (response error) = Some 401 \<longrightarrow>
        localStorage (snd (response_onRejected error st)) = (localStorage st)(''resona_token'' := None)
        \<and> getItem ''resona_token'' (snd (response_onRejected error st)) = None
        \<and> href (snd (response_onRejected error st)) = Some ''/'')
   \<and> (map_option status (response error) \<noteq> Some 401 \<longrightarrow>
        snd (response_onRejected error st) = st)"
  by (cases "response error") (simp_all add: response_onRejected_def set_href_def removeItem_def getItem_def)

theorem response_interceptor_401_witness:
  "map_option status (response \<lparr>response = Some \<lparr>status = 401, body = []\<rparr>, message = ''Unauthorized''\<rparr>) = Some 401
   \<and> getItem ''resona_token''
        (snd (response_onRejected \<lparr>response = Some \<lparr>status = 401, body = []\<rparr>, message = ''Unauthorized''\<rparr>
               (saveToken ''jwt'' fresh_browser))) = None
   \<and> href (snd (response_onRejected \<lparr>response = Some \<lparr>status = 401, body = []\<rparr>, message = ''Unauthorized''\<rparr>
               (saveToken ''jwt'' fresh_browser))) = Some ''/''
   \<and> map_option status (response \<lparr>response = Some \<lparr>status = 500, body = []\<rparr>, message = ''Server Error''\<rparr>) \<noteq> Some 401
   \<and> snd (response_onRejected \<lparr>response = Some \<lparr>status = 500, body = []\<rparr>, message = ''Server Error''\<rparr>
               (saveToken ''jwt'' fresh_browser)) = saveToken ''jwt'' fresh_browser
   \<and> map_option status (response \<lparr>response = None, message = ''Network Error''\<rparr>) \<noteq> Some 401
   \<and> snd (response_onRejected \<lparr>response = None, message = ''Network Error''\<rparr>
               (saveToken ''jwt'' fresh_browser)) = saveToken ''jwt'' fresh_browser"
  using response_interceptor_401
      [of "\<lparr>response = Some \<lparr>status = 401, body = []\<rparr>, message = ''Unauthorized''\<rparr>"
          "saveToken ''jwt'' fresh_browser"]
    response_interceptor_401
      [of "\<lparr>response = Some \<lparr>status = 500, body = []\<rparr>, message = ''Server Error''\<rparr>"
          "saveToken ''jwt'' fresh_browser"]
    response_interceptor_401
      [of "\<lparr>response = None, message = ''Network Error''\<rparr>" "saveToken ''jwt'' fresh_browser"]
  by simp

text \<open>
  C8 (as amended). The auth callback reads the first \<^verbatim>\<open>token\<close> and the first
  \<^verbatim>\<open>error\<close> parameter of the query. It stores the token (and navigates to
  \<^verbatim>\<open>/dashboard\<close>) if and only if the \<^verbatim>\<open>token\<close> parameter is present and
  non-empty and the \<^verbatim>\<open>error\<close> parameter is absent or empty. When the
  \<^verbatim>\<open>error\<close> parameter is present and non-empty it navigates to
  \<^verbatim>\<open>/?error=<error>\<close> and leaves localStorage as it was; when both parameters are
  absent or empty it navigates to \<^verbatim>\<open>/\<close> and leaves localStorage as it was.
\<close>

theorem AuthContent_cases:
  "(\<forall>e. searchParams_get ps ''error'' = Some e \<and> e \<noteq> [] \<longrightarrow>
       localStorage (AuthContent ps st) = localStorage st
       \<and> pushes (AuthContent ps st) = pushes st @ [''/?error='' @ e])
   \<and> (\<forall>t. \<not> truthy (searchParams_get ps ''error'') \<and> searchParams_get ps ''token'' = Some t \<and> t \<noteq> [] \<longrightarrow>
       AuthContent ps st = router_push ''/dashboard'' (saveToken t st)
       \<and> getToken (AuthContent ps st) = Some t
       \<and> pushes (AuthContent ps st) = pushes st @ [''/dashboard''])
   \<and> (\<not> truthy (searchParams_get ps ''error'') \<and> \<not> truthy (searchParams_get ps ''token'') \<longrightarrow>
       localStorage (AuthContent ps st) = localStorage st
       \<and> pushes (AuthContent ps st) = pushes st @ [''/''])
   \<and> ((\<exists>t. AuthContent ps st = router_push ''/dashboard'' (saveToken t st)) \<longleftrightarrow>
       truthy (searchParams_get ps ''token'') \<and> \<not> truthy (searchParams_get ps ''error''))"
proof -
  let ?e = "searchParams_get ps ''error''" and ?t = "searchParams_get ps ''token''"
  have err: "localStorage (AuthContent ps st) = localStorage st
       \<and> pushes (AuthContent ps st) = pushes st @ [''/?error='' @ e]"
    if "?e = Some e" "e \<noteq> []" for e
    using that by (simp add: AuthContent_def truthy_def router_push_def console_error_def)
  have tok: "AuthContent ps st = router_push ''/dashboard'' (saveToken t st)"
    if "\<not> truthy ?e" "?t = Some t" "t \<noteq> []" for t
    using that by (simp add: AuthContent_def truthy_def)
  have none: "AuthContent ps st = router_push ''/'' st" if "\<not> truthy ?e" "\<not> truthy ?t"
    using that by (simp add: AuthContent_def)
  have tok_obs: "getToken (router_push ''/dashboard'' (saveToken t st)) = Some t
       \<and> pushes (router_push ''/dashboard'' (saveToken t st)) = pushes st @ [''/dashboard'']" for t
    by (simp add: router_push_def saveToken_def setItem_def getToken_def getItem_def)
  have last_push: "last (pushes (router_push url s)) = url" for url s
    by (simp add: router_push_def)
  have iff: "(\<exists>t. AuthContent ps st = router_push ''/dashboard'' (saveToken t st)) \<longleftrightarrow>
       truthy ?t \<and> \<not> truthy ?e"
  proof
    assume "\<exists>t. AuthContent ps st = router_push ''/dashboard'' (saveToken t st)"
    then obtain t where eq: "AuthContent ps st = router_push ''/dashboard'' (saveToken t st)" ..
    then have l: "last (pushes (AuthContent ps st)) = ''/dashboard''"
      by (simp add: last_push)
    show "truthy ?t \<and> \<not> truthy ?e"
    proof (cases "truthy ?e")
      case True
      then obtain e where "?e = Some e" "e \<noteq> []"
        by (auto simp: truthy_def split: option.splits)
      with err l show ?thesis by simp
    next
      case False
      show ?thesis
      proof (cases "truthy ?t")
        case True
        with False show ?thesis by simp
      next
        case nt: False
        with False none l show ?thesis by (simp add: last_push)
      qed
    qed
  next
    assume a: "truthy ?t \<and> \<not> truthy ?e"
    then obtain t where "?t = Some t" "t \<noteq> []"
      by (auto simp: truthy_def split: option.splits)
    with a tok show "\<exists>t. AuthContent ps st = router_push ''/dashboard'' (saveToken t st)"
      by blast
  qed
  have c1: "\<forall>e. ?e = Some e \<and> e \<noteq> [] \<longrightarrow>
       localStorage (AuthContent ps st) = localStorage st
       \<and> pushes (AuthContent ps st) = pushes st @ [''/?error='' @ e]"
    using err by blast
  have c2: "\<forall>t. \<not> truthy ?e \<and> ?t = Some t \<and> t \<noteq> [] \<longrightarrow>
       AuthContent ps st = router_push ''/dashboard'' (saveToken t st)
       \<and> getToken (AuthContent ps st) = Some t
       \<and> pushes (AuthContent ps st) = pushes st @ [''/dashboard'']"
  proof (intro allI impI)
    fix t assume a: "\<not> truthy ?e \<and> ?t = Some t \<and> t \<noteq> []"
    then have eq: "AuthContent ps st = router_push ''/dashboard'' (saveToken t st)"
      using tok by blast
    show "AuthContent ps st = router_push ''/dashboard'' (saveToken t st)
       \<and> getToken (AuthContent ps st) = Some t
       \<and> pushes (AuthContent ps st) = pushes st @ [''/dashboard'']"
      unfolding eq using tok_obs [of t] by simp
  qed
  have c3: "\<not> truthy ?e \<and> \<not> truthy ?t \<longrightarrow>
       localStorage (AuthContent ps st) = localStorage st
       \<and> pushes (AuthContent ps st) = pushes st @ [''/'']"
  proof
    assume "\<not> truthy ?e \<and> \<not> truthy ?t"
    then have eq: "AuthContent ps st = router_push ''/'' st"
      using none by blast
    show "localStorage (AuthContent ps st) = localStorage st
       \<and> pushes (AuthContent ps st) = pushes st @ [''/'']"
      unfolding eq by (simp add: router_push_def)
  qed
  from c1 c2 c3 iff show ?thesis
    by (intro conjI)
qed

theorem AuthContent_cases_witness:
  "searchParams_get [(''error'', ''access_denied'')] ''error'' = Some ''access_denied''
   \<and> ''access_denied'' \<noteq> []
   \<and> localStorage (AuthContent [(''error'', ''access_denied'')] fresh_browser) = localStorage fresh_browser
   \<and> pushes (AuthContent [(''error'', ''access_denied'')] fresh_browser) = [''/?error=access_denied'']
   \<and> \<not> truthy (searchParams_get [(''token'', ''jwt'')] ''error'')
   \<and> searchParams_get [(''token'', ''jwt'')] ''token'' = Some ''jwt''
   \<and> getToken (AuthContent [(''token'', ''jwt'')] fresh_browser) = Some ''jwt''
   \<and> pushes (AuthContent [(''token'', ''jwt'')] fresh_browser) = [''/dashboard'']
   \<and> \<not> truthy (searchParams_get [] ''token'')
   \<and> localStorage (AuthContent [] fresh_browser) = localStorage fresh_browser
   \<and> pushes (AuthContent [] fresh_browser) = [''/'']"
proof -
  have e: "searchParams_get [(''error'', ''access_denied'')] ''error'' = Some ''access_denied''
      \<and> ''access_denied'' \<noteq> []"
    by (simp add: searchParams_get_def)
  have t: "\<not> truthy (searchParams_get [(''token'', ''jwt'')] ''error'')
      \<and> searchParams_get [(''token'', ''jwt'')] ''token'' = Some ''jwt'' \<and> ''jwt'' \<noteq> []"
    by (simp add: searchParams_get_def truthy_def)
  have n: "\<not> truthy (searchParams_get [] ''error'') \<and> \<not> truthy (searchParams_get [] ''token'')"
    by (simp add: searchParams_get_def truthy_def)
  note E = AuthContent_cases [of "[(''error'', ''access_denied'')]" fresh_browser,
      THEN conjunct1, THEN spec, THEN mp, OF e]
  note T = AuthContent_cases [of "[(''token'', ''jwt'')]" fresh_browser,
      THEN conjunct2, THEN conjunct1, THEN spec, THEN mp, OF t]
  note N = AuthContent_cases [of "[]" fresh_browser,
      THEN conjunct2, THEN conjunct2, THEN conjunct1, THEN mp, OF n]
  have p: "pushes fresh_browser = []"
    by (simp add: fresh_browser_def)
  show ?thesis
    using e t n E T [THEN conjunct2] N p by simp
qed

text \<open>
  C8 as stated fails when a parameter is present with an empty value. With the query
  \<^verbatim>\<open>?token=abc&error=\<close> the \<^verbatim>\<open>error\<close> parameter is present, yet the token is
  stored and the page navigates to \<^verbatim>\<open>/dashboard\<close>. With the query \<^verbatim>\<open>?token=\<close>
  the \<^verbatim>\<open>token\<close> parameter is present and there is no \<^verbatim>\<open>error\<close> parameter,
  yet nothing is stored and the page navigates to \<^verbatim>\<open>/\<close>.
\<close>

theorem AuthContent_empty_param_counterexample:
  "searchParams_get [(''token'', ''abc''), (''error'', [])] ''error'' = Some []
   \<and> getToken (AuthContent [(''token'', ''abc''), (''error'', [])] fresh_browser) = Some ''abc''
   \<and> pushes (AuthContent [(''token'', ''abc''), (''error'', [])] fresh_browser) = [''/dashboard'']
   \<and> searchParams_get [(''token'', [])] ''token'' = Some []
   \<and> searchParams_get [(''token'', [])] ''error'' = None
   \<and> getToken (AuthContent [(''token'', [])] fresh_browser) = None
   \<and> pushes (AuthContent [(''token'', [])] fresh_browser) = [''/'']"
  by (simp add: AuthContent_def searchParams_get_def truthy_def router_push_def saveToken_def
      setItem_def getToken_def getItem_def fresh_browser_def)

section \<open>Properties of the pipeline\<close>

subsection \<open>Cluster assignment before any fit\<close>

text \<open>
  C5. Before any cluster model has been fit, \<open>assign\<close> fails with
  \<open>ModelNotFitError\<close> for every vector, and its caller \<open>get_cluster\<close> answers with
  the single default cluster (cluster id 0) instead of the failure; for no model and no
  vector does \<open>get_cluster\<close> fail with \<open>ModelNotFitError\<close>. In the client, a rejected
  cluster request leaves the dashboard's cluster value as it was and clears the
  loading flag when it was the request's own: the handler swallows the error.
\<close>

theorem assign_before_fit_falls_back:
  "assign None v = Inl ModelNotFitError
   \<and> get_cluster None v = Inr default_assignment
   \<and> cluster_id default_assignment = 0
   \<and> get_cluster model w \<noteq> Inl ModelNotFitError
   \<and> cluster (handleGetCluster forceFetch (Inl err) st) = cluster st
   \<and> (\<not> fetchingCluster st \<longrightarrow> \<not> fetchingCluster (handleGetCluster True (Inl err) st))"
proof -
  have a: "assign None v = Inl ModelNotFitError"
    by (simp add: assign_def)
  have g: "get_cluster None v = Inr default_assignment"
    by (simp add: get_cluster_def a)
  have d: "cluster_id default_assignment = 0"
    by (simp add: default_assignment_def)
  have n: "get_cluster model w \<noteq> Inl ModelNotFitError"
    by (cases "assign model w"; simp add: get_cluster_def split: pipeline_error.splits)
  have h: "cluster (handleGetCluster forceFetch (Inl err) st) = cluster st"
    by (simp add: handleGetCluster_def Let_def)
  have f: "\<not> fetchingCluster st \<longrightarrow> \<not> fetchingCluster (handleGetCluster True (Inl err) st)"
    by (simp add: handleGetCluster_def Let_def)
  from a g d n h f show ?thesis
    by (intro conjI)
qed

theorem assign_before_fit_falls_back_witness:
  "assign None [0.5, 0.5] = Inl ModelNotFitError
   \<and> get_cluster None [0.5, 0.5] = Inr default_assignment
   \<and> get_cluster (Some \<lparr>centroids = [[0, 0], [1, 1]], persona_table = [(''Explorer'', ''''), (''Loyalist'', '''')],
        fit_timestamp = 0, population_size = 2\<rparr>) [0.5, 0.5] \<noteq> Inl ModelNotFitError
   \<and> \<not> fetchingCluster initial_dashboard
   \<and> cluster (handleGetCluster True (Inl \<lparr>response = None, message = ''Network Error''\<rparr>) initial_dashboard) = JNull
   \<and> \<not> fetchingCluster (handleGetCluster True (Inl \<lparr>response = None, message = ''Network Error''\<rparr>) initial_dashboard)"
proof -
  note T = assign_before_fit_falls_back [of "[0.5, 0.5]"
      "Some \<lparr>centroids = [[0, 0], [1, 1]], persona_table = [(''Explorer'', ''''), (''Loyalist'', '''')],
        fit_timestamp = 0, population_size = 2\<rparr>" "[0.5, 0.5]" True
      "\<lparr>response = None, message = ''Network Error''\<rparr>" initial_dashboard]
  have i: "\<not> fetchingCluster initial_dashboard" "cluster initial_dashboard = JNull"
    by (simp_all add: initial_dashboard_def)
  from T i show ?thesis
    by simp
qed

subsection \<open>Profile cache\<close>

lemma get_or_compute_hit:
  "cache u = Some p \<Longrightarrow> \<not> is_stale ttl now p \<Longrightarrow>
   get_or_compute ttl now cache u f False = \<lparr>returned = p, cache_after = cache, invocations = 0\<rparr>"
  by (simp add: get_or_compute_def)

lemma get_or_compute_miss:
  "cache u = None \<or> (\<exists>p. cache u = Some p \<and> is_stale ttl now p) \<or> force \<Longrightarrow>
   get_or_compute ttl now cache u f force = recompute now cache u f"
  by (auto simp: get_or_compute_def split: option.splits)

lemma get_or_compute_entry:
  "cache_after (get_or_compute ttl now cache u f force) u = Some (returned (get_or_compute ttl now cache u f force))"
  by (auto simp: get_or_compute_def recompute_def Let_def split: option.splits)

lemma get_or_compute_frame:
  "v \<noteq> u \<Longrightarrow> cache_after (get_or_compute ttl now cache u f force) v = cache v"
  by (auto simp: get_or_compute_def recompute_def Let_def split: option.splits)

lemma get_or_compute_repeat:
  assumes "now' - computed_at (returned (get_or_compute ttl now cache u f force)) < ttl"
  shows "get_or_compute ttl now' (cache_after (get_or_compute ttl now cache u f force)) u f False
     = \<lparr>returned = returned (get_or_compute ttl now cache u f force),
        cache_after = cache_after (get_or_compute ttl now cache u f force),
        invocations = 0\<rparr>"
  using get_or_compute_entry [of ttl now cache u f force] assms
  by (intro get_or_compute_hit) (simp_all add: is_stale_def)

lemma serve_repeat:
  assumes "now' - computed_at (returned (get_or_compute ttl now cache u f force)) < ttl"
  shows "serve ttl now' (cache_after (get_or_compute ttl now cache u f force)) f u view
     = \<lparr>served_answer = view (returned (get_or_compute ttl now cache u f force)),
        served_cache = cache_after (get_or_compute ttl now cache u f force),
        computed = 0\<rparr>"
  by (simp add: serve_def get_or_compute_repeat [OF assms])

text \<open>
  C3 (as amended). If a cached profile exists for the user, is not stale (its age is
  below the TTL) and \<open>force_refresh\<close> is false, then \<open>get_or_compute\<close> returns the
  cached profile unchanged and does not invoke the compute function;
  \<open>get_features\<close> returns its features, and every exposed operation (cluster,
  recommendations, evaluation, insights) is then a pure read: it answers from the
  cached profile, computes nothing and leaves the cache as it was. On a miss, on a
  stale entry, or when a refresh is forced, the call invokes the compute function once
  and replaces the user's cache entry by the fresh profile, stamped with the time of
  the call. After any call, repeating an operation without \<open>force_refresh\<close> while the
  returned profile is still fresh gives the same profile, computes nothing and leaves the
  cache unchanged.
\<close>

theorem get_or_compute_cached:
  "(cache u = Some p \<and> now - computed_at p < ttl \<longrightarrow>
      get_or_compute ttl now cache u f False = \<lparr>returned = p, cache_after = cache, invocations = 0\<rparr>
      \<and> get_features ttl now cache f u False = (profile_features p, cache)
      \<and> (\<forall>view. serve ttl now cache f u view = \<lparr>served_answer = view p, served_cache = cache, computed = 0\<rparr>)
      \<and> api_get_cluster ttl now cache f model u
           = \<lparr>served_answer = get_cluster model (feature_point (profile_features p)), served_cache = cache, computed = 0\<rparr>
      \<and> api_get_recommendations ttl now cache f score pool u limit
           = \<lparr>served_answer = recommend score p pool limit, served_cache = cache, computed = 0\<rparr>
      \<and> served_cache (api_get_evaluation ttl now cache f score pool gt u k) = cache
      \<and> computed (api_get_evaluation ttl now cache f score pool gt u k) = 0
      \<and> api_get_insights ttl now cache f baseline u
           = \<lparr>served_answer = analyze p baseline, served_cache = cache, computed = 0\<rparr>)
   \<and> (cache u = None \<or> (\<exists>q. cache u = Some q \<and> \<not> now - computed_at q < ttl) \<or> force \<longrightarrow>
      returned (get_or_compute ttl now cache u f force) = (f u)\<lparr>computed_at := now\<rparr>
      \<and> cache_after (get_or_compute ttl now cache u f force)
           = cache(u \<mapsto> (f u)\<lparr>computed_at := now\<rparr>)
      \<and> invocations (get_or_compute ttl now cache u f force) = 1)
   \<and> (\<forall>now'. now' - computed_at (returned (get_or_compute ttl now cache u f force)) < ttl \<longrightarrow>
      get_or_compute ttl now' (cache_after (get_or_compute ttl now cache u f force)) u f False
        = \<lparr>returned = returned (get_or_compute ttl now cache u f force),
           cache_after = cache_after (get_or_compute ttl now cache u f force),
           invocations = 0\<rparr>
      \<and> (\<forall>view. serve ttl now' (cache_after (get_or_compute ttl now cache u f force)) f u view
        = \<lparr>served_answer = view (returned (get_or_compute ttl now cache u f force)),
           served_cache = cache_after (get_or_compute ttl now cache u f force),
           computed = 0\<rparr>))"
proof -
  have hit: "get_or_compute ttl now cache u f False = \<lparr>returned = p, cache_after = cache, invocations = 0\<rparr>
      \<and> get_features ttl now cache f u False = (profile_features p, cache)
      \<and> (\<forall>view. serve ttl now cache f u view = \<lparr>served_answer = view p, served_cache = cache, computed = 0\<rparr>)
      \<and> api_get_cluster ttl now cache f model u
           = \<lparr>served_answer = get_cluster model (feature_point (profile_features p)), served_cache = cache, computed = 0\<rparr>
      \<and> api_get_recommendations ttl now cache f score pool u limit
           = \<lparr>served_answer = recommend score p pool limit, served_cache = cache, computed = 0\<rparr>
      \<and> served_cache (api_get_evaluation ttl now cache f score pool gt u k) = cache
      \<and> computed (api_get_evaluation ttl now cache f score pool gt u k) = 0
      \<and> api_get_insights ttl now cache f baseline u
           = \<lparr>served_answer = analyze p baseline, served_cache = cache, computed = 0\<rparr>"
    if h: "cache u = Some p \<and> now - computed_at p < ttl"
  proof -
    from h have "\<not> is_stale ttl now p"
      by (simp add: is_stale_def)
    with h have g: "get_or_compute ttl now cache u f False
        = \<lparr>returned = p, cache_after = cache, invocations = 0\<rparr>"
      by (simp add: get_or_compute_hit)
    then have s: "serve ttl now cache f u view = \<lparr>served_answer = view p, served_cache = cache, computed = 0\<rparr>"
      for view :: "user_profile \<Rightarrow> 'x"
      by (simp add: serve_def)
    show ?thesis
      by (simp add: g get_features_def s api_get_cluster_def api_get_recommendations_def
          api_get_evaluation_def api_get_insights_def)
  qed
  have miss: "returned (get_or_compute ttl now cache u f force) = (f u)\<lparr>computed_at := now\<rparr>
      \<and> cache_after (get_or_compute ttl now cache u f force)
           = cache(u \<mapsto> (f u)\<lparr>computed_at := now\<rparr>)
      \<and> invocations (get_or_compute ttl now cache u f force) = 1"
    if m: "cache u = None \<or> (\<exists>q. cache u = Some q \<and> \<not> now - computed_at q < ttl) \<or> force"
  proof -
    from m have "cache u = None \<or> (\<exists>q. cache u = Some q \<and> is_stale ttl now q) \<or> force"
      by (simp add: is_stale_def)
    then have "get_or_compute ttl now cache u f force = recompute now cache u f"
      by (rule get_or_compute_miss)
    then show ?thesis
      by (simp add: recompute_def Let_def)
  qed
  have rep: "get_or_compute ttl now' (cache_after (get_or_compute ttl now cache u f force)) u f False
        = \<lparr>returned = returned (get_or_compute ttl now cache u f force),
           cache_after = cache_after (get_or_compute ttl now cache u f force),
           invocations = 0\<rparr>
      \<and> (\<forall>view. serve ttl now' (cache_after (get_or_compute ttl now cache u f force)) f u view
        = \<lparr>served_answer = view (returned (get_or_compute ttl now cache u f force)),
           served_cache = cache_after (get_or_compute ttl now cache u f force),
           computed = 0\<rparr>)"
    if "now' - computed_at (returned (get_or_compute ttl now cache u f force)) < ttl" for now'
    using get_or_compute_repeat [OF that] serve_repeat [OF that] by blast
  from hit miss rep show ?thesis
    by blast
qed


theorem get_or_compute_cached_witness:
  "[''user1'' \<mapsto> sample_profile] ''user1'' = Some sample_profile
   \<and> 160 - computed_at sample_profile < 3600
   \<and> get_or_compute 3600 160 [''user1'' \<mapsto> sample_profile] ''user1'' sample_compute False
        = \<lparr>returned = sample_profile, cache_after = [''user1'' \<mapsto> sample_profile], invocations = 0\<rparr>
   \<and> api_get_insights 3600 160 [''user1'' \<mapsto> sample_profile] sample_compute [] ''user1''
        = \<lparr>served_answer = analyze sample_profile [], served_cache = [''user1'' \<mapsto> sample_profile], computed = 0\<rparr>
   \<and> invocations (get_or_compute 3600 160 Map.empty ''user1'' sample_compute False) = 1
   \<and> 200 - computed_at (returned (get_or_compute 3600 160 Map.empty ''user1'' sample_compute False)) < 3600
   \<and> invocations (get_or_compute 3600 200
          (cache_after (get_or_compute 3600 160 Map.empty ''user1'' sample_compute False))
          ''user1'' sample_compute False) = 0"
proof -
  have h: "[''user1'' \<mapsto> sample_profile] ''user1'' = Some sample_profile
      \<and> 160 - computed_at sample_profile < 3600"
    by (simp add: sample_profile_def)
  note H = get_or_compute_cached [of "[''user1'' \<mapsto> sample_profile]" "''user1''" sample_profile
      160 3600 sample_compute, THEN conjunct1, THEN mp, OF h]
  from H have h1: "get_or_compute 3600 160 [''user1'' \<mapsto> sample_profile] ''user1'' sample_compute False
        = \<lparr>returned = sample_profile, cache_after = [''user1'' \<mapsto> sample_profile], invocations = 0\<rparr>"
    by (rule conjunct1)
  from H have h2: "api_get_insights 3600 160 [''user1'' \<mapsto> sample_profile] sample_compute [] ''user1''
        = \<lparr>served_answer = analyze sample_profile [], served_cache = [''user1'' \<mapsto> sample_profile], computed = 0\<rparr>"
    by blast
  have m: "(Map.empty :: profile_cache) ''user1'' = None
      \<or> (\<exists>q. (Map.empty :: profile_cache) ''user1'' = Some q \<and> \<not> 160 - computed_at q < 3600) \<or> False"
    by simp
  note M = get_or_compute_cached [of Map.empty "''user1''" sample_profile 160 3600 sample_compute
      _ _ _ _ _ _ _ False, THEN conjunct2, THEN conjunct1, THEN mp, OF m]
  from M have m1: "invocations (get_or_compute 3600 160 Map.empty ''user1'' sample_compute False) = 1"
    by blast
  from M have "computed_at (returned (get_or_compute 3600 160 Map.empty ''user1'' sample_compute False)) = 160"
    by simp
  then have f: "200 - computed_at (returned (get_or_compute 3600 160 Map.empty ''user1'' sample_compute False)) < 3600"
    by simp
  note R = get_or_compute_cached [of Map.empty "''user1''" sample_profile 160 3600 sample_compute
      _ _ _ _ _ _ _ False, THEN conjunct2, THEN conjunct2, THEN spec, THEN mp, OF f]
  from R [THEN conjunct1] have r1: "invocations (get_or_compute 3600 200
          (cache_after (get_or_compute 3600 160 Map.empty ''user1'' sample_compute False))
          ''user1'' sample_compute False) = 0"
    by simp
  from h h1 h2 m1 f r1 show ?thesis
    by (intro conjI) (simp_all only:)
qed

text \<open>
  C3 as stated fails in its second half. Without \<open>force_refresh\<close>, a call for a user
  who has no cache entry is not a read: it invokes the compute function and writes the
  cache, for \<open>get_or_compute\<close> and for an exposed operation such as the insights
  alike. Nor is it idempotent over time: repeated after the TTL has elapsed, the call
  computes again and returns a profile with another timestamp.
\<close>

theorem get_or_compute_miss_counterexample:
  "invocations (get_or_compute 3600 160 Map.empty ''user1'' sample_compute False) = 1
   \<and> cache_after (get_or_compute 3600 160 Map.empty ''user1'' sample_compute False) ''user1''
        = Some ((sample_compute ''user1'')\<lparr>computed_at := 160\<rparr>)
   \<and> computed (api_get_insights 3600 160 Map.empty sample_compute [] ''user1'') = 1
   \<and> served_cache (api_get_insights 3600 160 Map.empty sample_compute [] ''user1'') ''user1''
        = Some ((sample_compute ''user1'')\<lparr>computed_at := 160\<rparr>)
   \<and> invocations (get_or_compute 3600 5000
          (cache_after (get_or_compute 3600 160 Map.empty ''user1'' sample_compute False))
          ''user1'' sample_compute False) = 1
   \<and> computed_at (returned (get_or_compute 3600 5000
          (cache_after (get_or_compute 3600 160 Map.empty ''user1'' sample_compute False))
          ''user1'' sample_compute False)) = 5000
   \<and> computed_at (returned (get_or_compute 3600 160 Map.empty ''user1'' sample_compute False)) = 160"
  by (simp add: get_or_compute_def recompute_def is_stale_def Let_def api_get_insights_def serve_def)

text \<open>
  The client keeps its own copy of the features: once they are loaded, the handler,
  called without \<open>forceFetch\<close>, only toggles the panel and sends no request. Every
  request it does send asks the server for a forced refresh.
\<close>

lemma handleComputeFeatures_loaded:
  "json_truthy (features st) \<Longrightarrow>
   handleComputeFeatures False answer st = st\<lparr>featuresOpen := \<not> featuresOpen st\<rparr>"
  by (simp add: handleComputeFeatures_def)

lemma handleComputeFeatures_requests:
  "requests (handleComputeFeatures forceFetch answer st) = requests st
   \<or> requests (handleComputeFeatures forceFetch answer st)
        = requests st @ [''/api/features?force_refresh=true'']"
  by (cases answer) (simp_all add: handleComputeFeatures_def Let_def getFeatures_url_def)

subsection \<open>Feature aggregation\<close>

lemma ratio_defined: "b \<noteq> 0 \<Longrightarrow> ratio a b = Some (a / b)"
  by (simp add: ratio_def)











subsection \<open>Evaluation metrics\<close>

lemma hits_card: "hits rs gt k = card (set (top_ids rs k) \<inter> set gt)"
proof -
  have "set (filter (\<lambda>i. i \<in> set gt) (remdups (top_ids rs k))) = set (top_ids rs k) \<inter> set gt"
    by auto
  moreover have "distinct (filter (\<lambda>i. i \<in> set gt) (remdups (top_ids rs k)))"
    by simp
  ultimately show ?thesis
    unfolding hits_def by (metis distinct_card)
qed

lemma harmonic_mean_one: "harmonic_mean 1 1 = 1"
  by (simp add: harmonic_mean_def)

lemma harmonic_mean_zero: "harmonic_mean 0 0 = 0"
  by (simp add: harmonic_mean_def)

lemma evaluate_precision:
  "precision_at_k (evaluate rs gt k) = (if k = 0 then 0 else real (hits rs gt k) / real k)"
  by (simp add: evaluate_def Let_def)

lemma evaluate_recall:
  "recall_at_k (evaluate rs gt k) =
     (if gt = [] then 0 else real (hits rs gt k) / real (card (set gt)))"
  by (simp add: evaluate_def Let_def length_remdups_card_conv)

lemma evaluate_f1:
  "f1_at_k (evaluate rs gt k) =
     harmonic_mean (precision_at_k (evaluate rs gt k)) (recall_at_k (evaluate rs gt k))"
  by (simp add: evaluate_def Let_def)

text \<open>
  C2 (as amended). For every recommendation list, ground truth and \<open>k > 0\<close>,
  \<open>evaluate\<close> computes precision as the number of distinct identifiers of
  \<^verbatim>\<open>recommendations[:k]\<close> that are in the ground truth, over \<open>k\<close>, and recall as
  that number over the size of the ground truth, 0 when the ground truth is empty; F1 is
  their harmonic mean, 0 when both are 0. When \<^verbatim>\<open>recommendations[:k]\<close> holds
  \<open>k\<close> distinct tracks and the ground truth is exactly their set, all three
  are 1. When the two sets are disjoint, all three are 0.
\<close>

theorem evaluate_metrics:
  "(0 < k \<longrightarrow> precision_at_k (evaluate rs gt k)
        = real (card (set (top_ids rs k) \<inter> set gt)) / real k)
   \<and> recall_at_k (evaluate rs gt k)
        = (if set gt = {} then 0 else real (card (set (top_ids rs k) \<inter> set gt)) / real (card (set gt)))
   \<and> f1_at_k (evaluate rs gt k)
        = (if precision_at_k (evaluate rs gt k) + recall_at_k (evaluate rs gt k) = 0 then 0
           else 2 * precision_at_k (evaluate rs gt k) * recall_at_k (evaluate rs gt k)
                / (precision_at_k (evaluate rs gt k) + recall_at_k (evaluate rs gt k)))
   \<and> (0 < k \<and> length (top_ids rs k) = k \<and> distinct (top_ids rs k) \<and> set gt = set (top_ids rs k) \<longrightarrow>
        precision_at_k (evaluate rs gt k) = 1
        \<and> recall_at_k (evaluate rs gt k) = 1
        \<and> f1_at_k (evaluate rs gt k) = 1)
   \<and> (set (top_ids rs k) \<inter> set gt = {} \<longrightarrow>
        precision_at_k (evaluate rs gt k) = 0
        \<and> recall_at_k (evaluate rs gt k) = 0
        \<and> f1_at_k (evaluate rs gt k) = 0)"
proof -
  have p: "0 < k \<longrightarrow> precision_at_k (evaluate rs gt k)
        = real (card (set (top_ids rs k) \<inter> set gt)) / real k"
    by (simp add: evaluate_precision hits_card)
  have r: "recall_at_k (evaluate rs gt k)
        = (if set gt = {} then 0 else real (card (set (top_ids rs k) \<inter> set gt)) / real (card (set gt)))"
    by (simp add: evaluate_recall hits_card)
  have f: "f1_at_k (evaluate rs gt k)
        = (if precision_at_k (evaluate rs gt k) + recall_at_k (evaluate rs gt k) = 0 then 0
           else 2 * precision_at_k (evaluate rs gt k) * recall_at_k (evaluate rs gt k)
                / (precision_at_k (evaluate rs gt k) + recall_at_k (evaluate rs gt k)))"
    by (simp only: evaluate_f1 harmonic_mean_def)
  have exact: "precision_at_k (evaluate rs gt k) = 1
        \<and> recall_at_k (evaluate rs gt k) = 1
        \<and> f1_at_k (evaluate rs gt k) = 1"
    if h: "0 < k \<and> length (top_ids rs k) = k \<and> distinct (top_ids rs k) \<and> set gt = set (top_ids rs k)"
  proof -
    from h have c: "card (set (top_ids rs k)) = k"
      by (metis distinct_card)
    with h have hk: "hits rs gt k = k" and cg: "card (set gt) = k"
      by (simp_all add: hits_card)
    from h c have ne: "gt \<noteq> []"
      by auto
    have p1: "precision_at_k (evaluate rs gt k) = 1"
      using h hk by (simp add: evaluate_precision)
    have r1: "recall_at_k (evaluate rs gt k) = 1"
      using h hk cg ne by (simp add: evaluate_recall)
    have "f1_at_k (evaluate rs gt k) = 1"
      by (simp only: evaluate_f1 p1 r1 harmonic_mean_one)
    with p1 r1 show ?thesis by simp
  qed
  have disj: "precision_at_k (evaluate rs gt k) = 0
        \<and> recall_at_k (evaluate rs gt k) = 0
        \<and> f1_at_k (evaluate rs gt k) = 0"
    if h: "set (top_ids rs k) \<inter> set gt = {}"
  proof -
    from h have h0: "hits rs gt k = 0"
      by (simp add: hits_card)
    have p0: "precision_at_k (evaluate rs gt k) = 0"
      using h0 by (simp add: evaluate_precision)
    have r0: "recall_at_k (evaluate rs gt k) = 0"
      using h0 by (simp add: evaluate_recall)
    have "f1_at_k (evaluate rs gt k) = 0"
      by (simp only: evaluate_f1 p0 r0 harmonic_mean_zero)
    with p0 r0 show ?thesis by simp
  qed
  from p r f exact disj show ?thesis
    by blast
qed

theorem evaluate_metrics_witness:
  "(0::nat) < 2
   \<and> precision_at_k (evaluate [sample_rec ''a'' 1, sample_rec ''b'' 2, sample_rec ''c'' 3] [''a'', ''b''] 2) = 1
   \<and> recall_at_k (evaluate [sample_rec ''a'' 1, sample_rec ''b'' 2, sample_rec ''c'' 3] [''a'', ''b''] 2) = 1
   \<and> f1_at_k (evaluate [sample_rec ''a'' 1, sample_rec ''b'' 2, sample_rec ''c'' 3] [''a'', ''b''] 2) = 1
   \<and> set (top_ids [sample_rec ''a'' 1, sample_rec ''b'' 2, sample_rec ''c'' 3] 2) \<inter> set [''x''] = {}
   \<and> precision_at_k (evaluate [sample_rec ''a'' 1, sample_rec ''b'' 2, sample_rec ''c'' 3] [''x''] 2) = 0
   \<and> recall_at_k (evaluate [sample_rec ''a'' 1, sample_rec ''b'' 2, sample_rec ''c'' 3] [''x''] 2) = 0
   \<and> f1_at_k (evaluate [sample_rec ''a'' 1, sample_rec ''b'' 2, sample_rec ''c'' 3] [''x''] 2) = 0"
proof -
  let ?rs = "[sample_rec ''a'' 1, sample_rec ''b'' 2, sample_rec ''c'' 3]"
  have t: "top_ids ?rs 2 = [''a'', ''b'']"
    by (simp add: top_ids_def sample_rec_def sample_track_def)
  have h1: "(0::nat) < 2 \<and> length (top_ids ?rs 2) = 2 \<and> distinct (top_ids ?rs 2)
      \<and> set [''a'', ''b''] = set (top_ids ?rs 2)"
    unfolding t by simp
  have h2: "set (top_ids ?rs 2) \<inter> set [''x''] = {}"
    unfolding t by simp
  note E = evaluate_metrics [of 2 ?rs "[''a'', ''b'']",
      THEN conjunct2, THEN conjunct2, THEN conjunct2, THEN conjunct1, THEN mp, OF h1]
  note D = evaluate_metrics [of 2 ?rs "[''x'']",
      THEN conjunct2, THEN conjunct2, THEN conjunct2, THEN conjunct2, THEN mp, OF h2]
  have z: "(0::nat) < 2"
    by simp
  from z h2 E D show ?thesis
    by (intro conjI) (simp_all only:)
qed

text \<open>
  C2 as stated fails when \<^verbatim>\<open>recommendations[:k]\<close> has fewer than \<open>k\<close> tracks: with
  one recommendation, \<open>k = 2\<close> and the ground truth equal to that one track, precision
  is 1/2 and F1 is 2/3. It also fails on the empty list: the ground truth equals
  \<^verbatim>\<open>recommendations[:k]\<close>, both empty, and recall is 0.
\<close>

theorem evaluate_short_list_counterexample:
  "top_ids [sample_rec ''a'' 1] 2 = [''a'']
   \<and> precision_at_k (evaluate [sample_rec ''a'' 1] [''a''] 2) = 1/2
   \<and> recall_at_k (evaluate [sample_rec ''a'' 1] [''a''] 2) = 1
   \<and> f1_at_k (evaluate [sample_rec ''a'' 1] [''a''] 2) = 2/3
   \<and> top_ids [] 3 = []
   \<and> recall_at_k (evaluate [] [] 3) = 0"
  by (simp add: evaluate_def Let_def hits_def top_ids_def sample_rec_def sample_track_def
      harmonic_mean_def)

subsection \<open>Recommendations\<close>

lemma dedup_by_id_unknown:
  "t \<in> set (dedup_by_id known ts) \<Longrightarrow> track_id t \<notin> set known"
  by (induction known ts rule: dedup_by_id.induct) (auto split: if_splits)

lemma dedup_by_id_subset: "set (dedup_by_id known ts) \<subseteq> set ts"
  by (induction known ts rule: dedup_by_id.induct) auto

lemma dedup_by_id_distinct: "distinct (map track_id (dedup_by_id known ts))"
proof (induction known ts rule: dedup_by_id.induct)
  case (1 known)
  then show ?case by simp
next
  case (2 known t ts)
  have "track_id t \<notin> track_id ` set (dedup_by_id (track_id t # known) ts)"
  proof
    assume "track_id t \<in> track_id ` set (dedup_by_id (track_id t # known) ts)"
    then obtain x where x: "x \<in> set (dedup_by_id (track_id t # known) ts)" "track_id x = track_id t"
      by auto
    from dedup_by_id_unknown [OF x(1)] x(2) show False
      by simp
  qed
  with 2 show ?case by simp
qed

lemma dedup_by_id_length: "length (dedup_by_id known ts) \<le> length ts"
  by (induction known ts rule: dedup_by_id.induct) auto

lemma ranks_before_total: "ranks_before a b \<or> ranks_before b a"
  by (auto simp: ranks_before_def)

lemma ranks_before_trans: "ranks_before a b \<Longrightarrow> ranks_before b c \<Longrightarrow> ranks_before a c"
  by (auto simp: ranks_before_def)

lemma set_insert_ranked: "set (insert_ranked r rs) = insert r (set rs)"
  by (induction rs) auto

lemma length_insert_ranked: "length (insert_ranked r rs) = Suc (length rs)"
  by (induction rs) auto

lemma sorted_insert_ranked:
  "sorted_wrt ranks_before rs \<Longrightarrow> sorted_wrt ranks_before (insert_ranked r rs)"
proof (induction rs)
  case Nil
  then show ?case by simp
next
  case (Cons x xs)
  show ?case
  proof (cases "ranks_before r x")
    case True
    with Cons.prems show ?thesis
      by (auto intro: ranks_before_trans)
  next
    case False
    then have "ranks_before x r"
      using ranks_before_total by blast
    with Cons False show ?thesis
      by (auto simp: set_insert_ranked)
  qed
qed

lemma set_rank_sort: "set (rank_sort rs) = set rs"
  by (induction rs) (auto simp: set_insert_ranked)

lemma length_rank_sort: "length (rank_sort rs) = length rs"
  by (induction rs) (auto simp: length_insert_ranked)

lemma sorted_rank_sort: "sorted_wrt ranks_before (rank_sort rs)"
  by (induction rs) (auto simp: sorted_insert_ranked)

lemma length_number_from: "length (number_from n rs) = length rs"
  by (induction n rs rule: number_from.induct) auto

lemma number_from_track: "map rec_track (number_from n rs) = map rec_track rs"
  by (induction n rs rule: number_from.induct) auto

lemma number_from_score: "map rec_score (number_from n rs) = map rec_score rs"
  by (induction n rs rule: number_from.induct) auto

lemma number_from_rank: "map rec_rank (number_from n rs) = [n ..< n + length rs]"
  by (induction n rs rule: number_from.induct) (auto simp: upt_rec)

lemma number_from_member:
  "x \<in> set (number_from n rs) \<Longrightarrow> \<exists>y \<in> set rs. rec_track x = rec_track y \<and> rec_score x = rec_score y"
  by (induction n rs rule: number_from.induct) auto

lemma ranks_strictly_before_cong:
  "rec_track a = rec_track a' \<Longrightarrow> rec_score a = rec_score a' \<Longrightarrow>
   rec_track b = rec_track b' \<Longrightarrow> rec_score b = rec_score b' \<Longrightarrow>
   ranks_strictly_before a b = ranks_strictly_before a' b'"
  by (simp add: ranks_strictly_before_def)

lemma sorted_number_from:
  "sorted_wrt ranks_strictly_before rs \<Longrightarrow> sorted_wrt ranks_strictly_before (number_from n rs)"
proof (induction n rs rule: number_from.induct)
  case (1 n)
  then show ?case by simp
next
  case (2 n r rs)
  have "ranks_strictly_before (r\<lparr>rec_rank := n\<rparr>) x" if "x \<in> set (number_from (Suc n) rs)" for x
  proof -
    from that obtain y where y: "y \<in> set rs" "rec_track x = rec_track y" "rec_score x = rec_score y"
      using number_from_member by blast
    with "2.prems" have "ranks_strictly_before r y" by simp
    with y show ?thesis
      by (simp add: ranks_strictly_before_def)
  qed
  with 2 show ?case by simp
qed

lemma strict_of_distinct:
  "sorted_wrt ranks_before rs \<Longrightarrow> distinct (map (\<lambda>r. track_id (rec_track r)) rs) \<Longrightarrow>
   sorted_wrt ranks_strictly_before rs"
proof (induction rs)
  case Nil
  then show ?case by simp
next
  case (Cons r rs)
  have "ranks_strictly_before r x" if "x \<in> set rs" for x
  proof -
    from that Cons.prems have "ranks_before r x" "track_id (rec_track r) \<noteq> track_id (rec_track x)"
      by auto
    then show ?thesis
      by (auto simp: ranks_before_def ranks_strictly_before_def)
  qed
  with Cons show ?case by simp
qed

lemma distinct_map_insert_ranked:
  "distinct (map f (insert_ranked r rs)) = (f r \<notin> f ` set rs \<and> distinct (map f rs))"
  by (induction rs) (auto simp: set_insert_ranked)

lemma distinct_map_rank_sort: "distinct (map f (rank_sort rs)) = distinct (map f rs)"
  by (induction rs) (auto simp: distinct_map_insert_ranked set_rank_sort)

lemma number_from_ids:
  "map (\<lambda>r. track_id (rec_track r)) (number_from n rs) = map (\<lambda>r. track_id (rec_track r)) rs"
  by (induction n rs rule: number_from.induct) auto






lemma sorted_cut:
  assumes "sorted_wrt R xs" "x \<in> set (take n xs)" "y \<in> set (drop n xs)"
  shows "R x y"
proof -
  from assms(1) have "sorted_wrt R (take n xs @ drop n xs)"
    by simp
  with assms(2,3) show ?thesis
    unfolding sorted_wrt_append by blast
qed

lemma scored_ids:
  "map (\<lambda>r. track_id (rec_track r)) (map (scored score profile) ts) = map track_id ts"
  by (simp add: scored_def o_def)

lemma ranked_strictly_sorted:
  "distinct (map track_id ts) \<Longrightarrow>
   sorted_wrt ranks_strictly_before (rank_sort (map (scored score profile) ts))"
proof -
  assume "distinct (map track_id ts)"
  then have "distinct (map (\<lambda>r. track_id (rec_track r)) (map (scored score profile) ts))"
    by (simp only: scored_ids)
  then have "distinct (map (\<lambda>r. track_id (rec_track r)) (rank_sort (map (scored score profile) ts)))"
    by (simp only: distinct_map_rank_sort)
  with sorted_rank_sort show ?thesis
    by (rule strict_of_distinct)
qed

lemma recommend_Inr:
  "recommend score profile pool limit = Inr out \<longleftrightarrow>
     candidates profile pool \<noteq> []
     \<and> out = number_from 1 (take limit (rank_sort (map (scored score profile) (candidates profile pool))))"
  by (auto simp: recommend_def Let_def)

lemma recommend_Inl:
  "recommend score profile pool limit = Inl e \<longleftrightarrow>
     candidates profile pool = [] \<and> e = InsufficientDataError"
  by (auto simp: recommend_def Let_def)

lemma recommend_properties:
  assumes out: "recommend score profile pool limit = Inr out"
  shows "\<forall>r \<in> set out. track_id (rec_track r) \<notin> set (known_ids profile)"
    and "length out = min limit (length (candidates profile pool))"
    and "distinct (map (\<lambda>r. track_id (rec_track r)) out)"
    and "sorted_wrt ranks_strictly_before out"
    and "map rec_rank out = [1 ..< 1 + length out]"
    and "\<forall>r \<in> set out. rec_track r \<in> set (candidates profile pool)
            \<and> rec_score r = score profile (rec_track r)"
    and "\<forall>c \<in> set (candidates profile pool). c \<notin> rec_track ` set out \<longrightarrow>
            (\<forall>r \<in> set out. ranks_strictly_before r (scored score profile c))"
proof -
  let ?cands = "candidates profile pool"
  define ranked where "ranked = rank_sort (map (scored score profile) ?cands)"
  define top where "top = take limit ranked"
  from out have o: "out = number_from 1 top"
    by (simp add: recommend_Inr ranked_def top_def)
  have dc: "distinct (map track_id ?cands)"
    by (simp add: candidates_def dedup_by_id_distinct)
  have set_ranked: "set ranked = scored score profile ` set ?cands"
    by (simp add: ranked_def set_rank_sort)
  have strict: "sorted_wrt ranks_strictly_before ranked"
    unfolding ranked_def using dc by (rule ranked_strictly_sorted)
  have top_sub: "set top \<subseteq> set ranked"
    unfolding top_def by (rule set_take_subset)
  have top_mem: "rec_track r \<in> set ?cands \<and> rec_score r = score profile (rec_track r)"
    if "r \<in> set top" for r
    using that top_sub set_ranked by (auto simp: scored_def)
  have out_top: "\<exists>y \<in> set top. rec_track r = rec_track y \<and> rec_score r = rec_score y"
    if "r \<in> set out" for r
    using that unfolding o by (rule number_from_member)
  show c6: "\<forall>r \<in> set out. rec_track r \<in> set ?cands \<and> rec_score r = score profile (rec_track r)"
  proof
    fix r assume "r \<in> set out"
    with out_top obtain y where "y \<in> set top" "rec_track r = rec_track y" "rec_score r = rec_score y"
      by blast
    with top_mem show "rec_track r \<in> set ?cands \<and> rec_score r = score profile (rec_track r)"
      by simp
  qed
  show "\<forall>r \<in> set out. track_id (rec_track r) \<notin> set (known_ids profile)"
    using c6 dedup_by_id_unknown by (auto simp: candidates_def)
  show "length out = min limit (length ?cands)"
    by (simp add: o length_number_from top_def ranked_def length_rank_sort min.commute)
  have d_ranked: "distinct (map (\<lambda>r. track_id (rec_track r)) ranked)"
    using dc by (simp only: ranked_def distinct_map_rank_sort scored_ids)
  have d_top: "distinct (map (\<lambda>r. track_id (rec_track r)) top)"
    using d_ranked distinct_take [of "map (\<lambda>r. track_id (rec_track r)) ranked" limit]
    by (simp add: top_def take_map)
  show "distinct (map (\<lambda>r. track_id (rec_track r)) out)"
    using d_top by (simp add: o number_from_ids)
  have "sorted_wrt ranks_strictly_before top"
    unfolding top_def using strict by (rule sorted_wrt_take)
  then show "sorted_wrt ranks_strictly_before out"
    unfolding o by (rule sorted_number_from)
  show "map rec_rank out = [1 ..< 1 + length out]"
    by (simp add: o number_from_rank length_number_from)
  have tracks: "rec_track ` set out = rec_track ` set top"
    using number_from_track [of 1 top] unfolding o by (metis set_map)
  show "\<forall>c \<in> set ?cands. c \<notin> rec_track ` set out \<longrightarrow>
            (\<forall>r \<in> set out. ranks_strictly_before r (scored score profile c))"
  proof (intro ballI impI)
    fix c r
    assume c: "c \<in> set ?cands" and nc: "c \<notin> rec_track ` set out" and r: "r \<in> set out"
    from c have "scored score profile c \<in> set ranked"
      by (simp add: set_ranked)
    then have "scored score profile c \<in> set (take limit ranked) \<union> set (drop limit ranked)"
      by (simp only: set_append [symmetric] append_take_drop_id)
    moreover have "scored score profile c \<notin> set (take limit ranked)"
    proof
      assume "scored score profile c \<in> set (take limit ranked)"
      then have "rec_track (scored score profile c) \<in> rec_track ` set top"
        unfolding top_def by (rule imageI)
      with nc tracks show False
        by (simp add: scored_def)
    qed
    ultimately have dropped: "scored score profile c \<in> set (drop limit ranked)"
      by blast
    from out_top [OF r] obtain y where y: "y \<in> set top" "rec_track r = rec_track y" "rec_score r = rec_score y"
      by blast
    from strict y(1) dropped have "ranks_strictly_before y (scored score profile c)"
      unfolding top_def by (rule sorted_cut)
    with y(2,3) show "ranks_strictly_before r (scored score profile c)"
      by (simp add: ranks_strictly_before_def)
  qed
qed





text \<open>
  The client asks for \<open>default_limit\<close> recommendations and shows the first 20 tracks
  of the answer: what the engine returns for that limit is shown in full.
\<close>

lemma tracks_shown_length: "length (tracks_shown tracks) \<le> 20"
  by (simp add: tracks_shown_def)

lemma tracks_shown_recommend:
  "recommend score profile pool default_limit = Inr out \<Longrightarrow> tracks_shown out = out"
  using recommend_properties(2) [of score profile pool default_limit out]
  by (simp add: tracks_shown_def default_limit_def)


subsection \<open>Entropy score\<close>













subsection \<open>Fitting the cluster model: termination and non-empty clusters\<close>





































































lemma members_uniform_0: "members 0 (replicate n 0) (replicate n v) = replicate n v"
  by (simp add: members_def zip_replicate)

lemma members_uniform_Suc: "members (Suc j) (replicate n 0) (replicate n v) = []"
  by (simp add: members_def zip_replicate)
























end
